theory Spec2Isabelle
  imports
    Main
    "HOL-Library.Char_ord"
    "HOL-Library.List_Lexorder"
    "HOL-Library.Product_Lexorder"
    "HOL-Library.Multiset"
begin

section \<open>The folder store\<close>

text \<open>
  The persistent state is the three tables the folder service reads and writes:
  \<^verbatim>\<open>folders\<close>, \<^verbatim>\<open>app_folders\<close> (both from the migration) and \<^verbatim>\<open>apps\<close>
  (only the columns the service selects). A table is the list of its rows in
  insertion order; a query without \<^verbatim>\<open>ORDER BY\<close> scans that list from the front.
  Text is a \<open>string\<close>, one \<open>char\<close> per character (code points 0 to 255, where
  JavaScript's \<^verbatim>\<open>length\<close> and SQLite's binary collation both go by character).
  Timestamps and the \<^verbatim>\<open>order\<close> column are integers; where the service computes
  with an order, it does so on JavaScript numbers (\<open>toNumber\<close>, \<open>jsAdd\<close> below). Column names carry the table as a prefix, since \<^verbatim>\<open>id\<close>,
  \<^verbatim>\<open>name\<close> and others occur in several tables. Folder ids and app ids are primary keys:
  \<^verbatim>\<open>GROUP BY folders.id\<close> has one folder per group.
\<close>

record folder =
  folder_id :: string
  folder_userId :: string
  folder_name :: string
  folder_description :: "string option"
  folder_color :: "string option"
  folder_icon :: "string option"
  folder_order :: int
  folder_createdAt :: int
  folder_updatedAt :: int

text \<open>\<^verbatim>\<open>interface FolderWithAppCount extends Folder { appCount: number }\<close>\<close>

record folderWithAppCount = folder +
  appCount :: nat

record appFolder =
  af_id :: string
  af_appId :: string
  af_folderId :: string
  af_addedAt :: int

record app =
  app_id :: string
  app_userId :: string
  app_title :: string
  app_description :: "string option"
  app_framework :: "string option"
  app_status :: string
  app_visibility :: string
  app_createdAt :: int
  app_updatedAt :: int

record db =
  folders :: "folder list"
  appFolders :: "appFolder list"
  apps :: "app list"

text \<open>
  A statement that breaks a constraint of the schema makes the driver throw; the
  service catches it and hands it to \<^verbatim>\<open>handleDatabaseError\<close>. The model returns the
  error as a value, next to the state the failed call leaves behind.
\<close>

datatype db_error = ConstraintViolation

text \<open>
  \<^verbatim>\<open>INSERT INTO folders\<close>: \<^verbatim>\<open>id\<close> is the primary key. (The owner is the
  authenticated user; the \<^verbatim>\<open>users\<close> table is not part of the model.)
\<close>

definition insert_folder :: "db \<Rightarrow> folder \<Rightarrow> db_error + db" where
  "insert_folder d f =
     (if folder_id f \<in> set (map folder_id (folders d)) then Inl ConstraintViolation
      else Inr (d\<lparr>folders := folders d @ [f]\<rparr>))"

text \<open>
  \<^verbatim>\<open>INSERT INTO app_folders\<close>: primary key \<^verbatim>\<open>id\<close>, unique index on
  \<^verbatim>\<open>(app_id, folder_id)\<close>, foreign keys into \<^verbatim>\<open>apps\<close> and \<^verbatim>\<open>folders\<close>.
\<close>

definition insert_appFolder :: "db \<Rightarrow> appFolder \<Rightarrow> db_error + db" where
  "insert_appFolder d r =
     (if af_id r \<in> set (map af_id (appFolders d)) then Inl ConstraintViolation
      else if (af_appId r, af_folderId r) \<in> set (map (\<lambda>x. (af_appId x, af_folderId x)) (appFolders d))
        then Inl ConstraintViolation
      else if af_appId r \<notin> set (map app_id (apps d)) then Inl ConstraintViolation
      else if af_folderId r \<notin> set (map folder_id (folders d)) then Inl ConstraintViolation
      else Inr (d\<lparr>appFolders := appFolders d @ [r]\<rparr>))"

text \<open>\<^verbatim>\<open>DELETE FROM app_folders WHERE p\<close>\<close>

definition delete_appFolders :: "db \<Rightarrow> (appFolder \<Rightarrow> bool) \<Rightarrow> db" where
  "delete_appFolders d p = d\<lparr>appFolders := filter (\<lambda>r. \<not> p r) (appFolders d)\<rparr>"

text \<open>
  \<^verbatim>\<open>DELETE FROM folders WHERE p\<close>; the foreign key of \<^verbatim>\<open>app_folders.folder_id\<close> is
  \<^verbatim>\<open>ON DELETE cascade\<close>, so the associations of a deleted folder go with it.
\<close>

definition delete_folders :: "db \<Rightarrow> (folder \<Rightarrow> bool) \<Rightarrow> db" where
  "delete_folders d p =
     (let gone = map folder_id (filter p (folders d))
      in d\<lparr>folders := filter (\<lambda>f. \<not> p f) (folders d),
           appFolders := filter (\<lambda>r. af_folderId r \<notin> set gone) (appFolders d)\<rparr>)"

text \<open>\<^verbatim>\<open>UPDATE folders SET ... WHERE p\<close> with the row transformer \<open>g\<close>.\<close>

definition update_folders :: "db \<Rightarrow> (folder \<Rightarrow> bool) \<Rightarrow> (folder \<Rightarrow> folder) \<Rightarrow> db" where
  "update_folders d p g = d\<lparr>folders := map (\<lambda>f. if p f then g f else f) (folders d)\<rparr>"

text \<open>\<^verbatim>\<open>result[0]\<close> of a query: the first row, or \<^verbatim>\<open>undefined\<close>.\<close>

definition first_row :: "'a list \<Rightarrow> 'a option" where
  "first_row rows = (case rows of [] \<Rightarrow> None | r # _ \<Rightarrow> Some r)"

section \<open>FolderService\<close>

text \<open>
  The select list of \<^verbatim>\<open>getUserFolders\<close> and \<^verbatim>\<open>getFolderById\<close>: the folder's columns and
  \<^verbatim>\<open>count(appFolders.appId)\<close> over the left join on \<^verbatim>\<open>folders.id = appFolders.folderId\<close>,
  grouped by \<^verbatim>\<open>folders.id\<close>: the number of association rows of the folder.
\<close>

definition withAppCount :: "db \<Rightarrow> folder \<Rightarrow> folderWithAppCount" where
  "withAppCount d f =
     folder.extend f
       \<lparr>appCount = length (filter (\<lambda>r. af_folderId r = folder_id f) (appFolders d))\<rparr>"

text \<open>\<^verbatim>\<open>.orderBy(desc(folders.order), folders.name)\<close>\<close>

definition getUserFolders :: "db \<Rightarrow> string \<Rightarrow> folderWithAppCount list" where
  "getUserFolders d userId =
     sort_key (\<lambda>f. (- folder_order f, folder_name f))
       (map (withAppCount d) (filter (\<lambda>f. folder_userId f = userId) (folders d)))"

definition getFolderById :: "db \<Rightarrow> string \<Rightarrow> string \<Rightarrow> folderWithAppCount option" where
  "getFolderById d folderId userId =
     first_row (map (withAppCount d)
       (filter (\<lambda>f. folder_id f = folderId \<and> folder_userId f = userId) (folders d)))"

record folderData =
  name :: string
  description :: "string option"
  color :: "string option"
  icon :: "string option"

text \<open>
  JavaScript numbers. The \<^verbatim>\<open>order\<close> of a folder reaches the service as a JavaScript
  number, an IEEE 754 double: \<open>toNumber x\<close> is the double nearest to the integer \<open>x\<close>
  (ties to the even significand), again an integer. It is \<open>x\<close> itself up to \<open>2 ^ 53\<close> in
  magnitude; above, doubles are \<open>2 ^ (bitLength a - 53)\<close> apart. \<open>jsAdd\<close> is \<^verbatim>\<open>+\<close> on two
  such numbers: the exact sum, rounded. (Magnitudes from \<open>2 ^ 1024\<close> on, where a double
  is infinite, do not occur in an integer column.)
\<close>

fun bitLength :: "nat \<Rightarrow> nat" where
  "bitLength n = (if n = 0 then 0 else Suc (bitLength (n div 2)))"

declare bitLength.simps [simp del]

definition toNumber :: "int \<Rightarrow> int" where
  "toNumber x =
     (let a = nat \<bar>x\<bar> in
      if a < 2 ^ 53 then x
      else
        (let ulp = 2 ^ (bitLength a - 53);
             q = a div ulp;
             r = a mod ulp;
             q' = (if 2 * r < ulp \<or> (2 * r = ulp \<and> even q) then q else q + 1)
         in sgn x * int (q' * ulp)))"

definition jsAdd :: "int \<Rightarrow> int \<Rightarrow> int" where
  "jsAdd x y = toNumber (x + y)"

text \<open>\<^verbatim>\<open>COALESCE(MAX(order), -1)\<close> over the rows of one user, as SQLite computes it.\<close>

definition sqlMaxOrder :: "db \<Rightarrow> string \<Rightarrow> int" where
  "sqlMaxOrder d userId =
     (case map folder_order (filter (\<lambda>f. folder_userId f = userId) (folders d)) of
        [] \<Rightarrow> - 1
      | x # xs \<Rightarrow> fold max xs x)"

text \<open>
  \<^verbatim>\<open>maxOrderResult[0]?.maxOrder ?? -1\<close>: the aggregate as the JavaScript number that the
  driver hands to the service (the query always has one row).
\<close>

definition maxOrder :: "db \<Rightarrow> string \<Rightarrow> int" where
  "maxOrder d userId = toNumber (sqlMaxOrder d userId)"

text \<open>
  \<^verbatim>\<open>createFolder\<close>. The id that \<^verbatim>\<open>generateId()\<close> returns and the time that
  \<^verbatim>\<open>CURRENT_TIMESTAMP\<close> stores are arguments. \<^verbatim>\<open>nextOrder\<close> is computed on JavaScript
  numbers. The result is \<^verbatim>\<open>createdFolder[0]\<close>.
\<close>

definition createFolder ::
  "db \<Rightarrow> string \<Rightarrow> folderData \<Rightarrow> string \<Rightarrow> int \<Rightarrow> (db_error + folder option) \<times> db" where
  "createFolder d userId folderData folderId now =
     (let nextOrder = jsAdd (maxOrder d userId) 1;
          newFolder = \<lparr>folder_id = folderId, folder_userId = userId,
                       folder_name = name folderData,
                       folder_description = description folderData,
                       folder_color = color folderData,
                       folder_icon = icon folderData,
                       folder_order = nextOrder,
                       folder_createdAt = now, folder_updatedAt = now\<rparr>
      in case insert_folder d newFolder of
           Inl e \<Rightarrow> (Inl e, d)
         | Inr d' \<Rightarrow>
             (Inr (first_row (filter (\<lambda>f. folder_id f = folderId) (folders d'))), d'))"

record folderUpdates =
  upd_name :: "string option"
  upd_description :: "string option"
  upd_color :: "string option"
  upd_icon :: "string option"
  upd_order :: "int option"

text \<open>
  \<^verbatim>\<open>.set({...updates, updatedAt: new Date()})\<close>: a key that is absent or
  \<^verbatim>\<open>undefined\<close> leaves its column alone.
\<close>

definition applyUpdates :: "folderUpdates \<Rightarrow> int \<Rightarrow> folder \<Rightarrow> folder" where
  "applyUpdates updates now f =
     f\<lparr>folder_name := (case upd_name updates of None \<Rightarrow> folder_name f | Some v \<Rightarrow> v),
       folder_description :=
         (case upd_description updates of None \<Rightarrow> folder_description f | Some v \<Rightarrow> Some v),
       folder_color := (case upd_color updates of None \<Rightarrow> folder_color f | Some v \<Rightarrow> Some v),
       folder_icon := (case upd_icon updates of None \<Rightarrow> folder_icon f | Some v \<Rightarrow> Some v),
       folder_order := (case upd_order updates of None \<Rightarrow> folder_order f | Some v \<Rightarrow> v),
       folder_updatedAt := now\<rparr>"

definition updateFolder ::
  "db \<Rightarrow> string \<Rightarrow> string \<Rightarrow> folderUpdates \<Rightarrow> int \<Rightarrow> folder option \<times> db" where
  "updateFolder d folderId userId updates now =
     (case getFolderById d folderId userId of
        None \<Rightarrow> (None, d)
      | Some existing \<Rightarrow>
          (let d' = update_folders d
                      (\<lambda>f. folder_id f = folderId \<and> folder_userId f = userId)
                      (applyUpdates updates now)
           in (first_row (filter (\<lambda>f. folder_id f = folderId) (folders d')), d')))"

definition deleteFolder :: "db \<Rightarrow> string \<Rightarrow> string \<Rightarrow> bool \<times> db" where
  "deleteFolder d folderId userId =
     (case getFolderById d folderId userId of
        None \<Rightarrow> (False, d)
      | Some existing \<Rightarrow>
          (let d1 = delete_appFolders d (\<lambda>r. af_folderId r = folderId);
               d2 = delete_folders d1 (\<lambda>f. folder_id f = folderId \<and> folder_userId f = userId)
           in (True, d2)))"

text \<open>
  \<^verbatim>\<open>moveAppToFolder\<close>; \<open>folderId = None\<close> is \<^verbatim>\<open>null\<close>. \<open>newId\<close> is what
  \<^verbatim>\<open>generateId()\<close> returns for the association row, \<open>now\<close> its \<^verbatim>\<open>added_at\<close>.
\<close>

definition moveAppToFolder ::
  "db \<Rightarrow> string \<Rightarrow> string option \<Rightarrow> string \<Rightarrow> string \<Rightarrow> int \<Rightarrow> (db_error + bool) \<times> db" where
  "moveAppToFolder d appId folderId userId newId now =
     (case first_row (filter (\<lambda>a. app_id a = appId) (apps d)) of
        None \<Rightarrow> (Inr False, d)
      | Some a \<Rightarrow>
          if app_userId a \<noteq> userId then (Inr False, d)
          else
            (case folderId of
               None \<Rightarrow> (Inr True, delete_appFolders d (\<lambda>r. af_appId r = appId))
             | Some fid \<Rightarrow>
                 (case getFolderById d fid userId of
                    None \<Rightarrow> (Inr False, d)
                  | Some folder \<Rightarrow>
                      (let d1 = delete_appFolders d (\<lambda>r. af_appId r = appId);
                           newAppFolder = \<lparr>af_id = newId, af_appId = appId,
                                           af_folderId = fid, af_addedAt = now\<rparr>
                       in case insert_appFolder d1 newAppFolder of
                            Inl e \<Rightarrow> (Inl e, d1)
                          | Inr d2 \<Rightarrow> (Inr True, d2)))))"




text \<open>
  \<^verbatim>\<open>getAppFolder\<close>: \<^verbatim>\<open>result[0]?.folderId || null\<close>; the empty string is falsy, so an
  empty folder id comes back as \<^verbatim>\<open>null\<close> too.
\<close>

definition getAppFolder :: "db \<Rightarrow> string \<Rightarrow> string option" where
  "getAppFolder d appId =
     (case first_row (filter (\<lambda>r. af_appId r = appId) (appFolders d)) of
        None \<Rightarrow> None
      | Some r \<Rightarrow> if af_folderId r = [] then None else Some (af_folderId r))"

section \<open>FolderController and FolderDialog: validation\<close>

text \<open>
  \<^verbatim>\<open>String.prototype.trim\<close> strips white space and line terminators from both ends;
  among the code points 0 to 255 these are TAB, LF, VT, FF, CR, SPACE and NBSP.
\<close>

definition isWhiteSpace :: "char \<Rightarrow> bool" where
  "isWhiteSpace c = (of_char c \<in> set [9, 10, 11, 12, 13, 32, 160 :: nat])"

definition trim :: "string \<Rightarrow> string" where
  "trim s = rev (dropWhile isWhiteSpace (rev (dropWhile isWhiteSpace s)))"

text \<open>
  The response envelope: \<^verbatim>\<open>createSuccessResponse(data)\<close> (status 200) and
  \<^verbatim>\<open>createErrorResponse(message, status)\<close>.
\<close>

datatype 'a response = SuccessResponse 'a | ErrorResponse string nat

text \<open>
  The JSON body of a create request. The interface declares \<^verbatim>\<open>name: string\<close>, but the
  controller tests \<^verbatim>\<open>!body.name\<close>: a body without a name is \<open>None\<close>.
\<close>

record createFolderRequest =
  req_name :: "string option"
  req_description :: "string option"
  req_color :: "string option"
  req_icon :: "string option"

text \<open>
  \<^verbatim>\<open>FolderController.createFolder\<close>. An exception of the service (rethrown by its
  error handler) and the \<^verbatim>\<open>TypeError\<close> of \<^verbatim>\<open>folder.id\<close> on \<^verbatim>\<open>undefined\<close> both
  end in the \<^verbatim>\<open>catch\<close> block, status 500.
\<close>

definition FolderController_createFolder ::
  "db \<Rightarrow> string \<Rightarrow> createFolderRequest \<Rightarrow> string \<Rightarrow> int
     \<Rightarrow> folderWithAppCount option response \<times> db" where
  "FolderController_createFolder d userId body newId now =
     (case req_name body of
        None \<Rightarrow> (ErrorResponse ''Folder name is required'' 400, d)
      | Some n \<Rightarrow>
          if n = [] \<or> length (trim n) = 0
            then (ErrorResponse ''Folder name is required'' 400, d)
          else if length n > 50
            then (ErrorResponse ''Folder name must be 50 characters or less'' 400, d)
          else
            (case createFolder d userId
                    \<lparr>name = trim n, description = map_option trim (req_description body),
                     color = req_color body, icon = req_icon body\<rparr> newId now of
               (Inl e, d') \<Rightarrow> (ErrorResponse ''Failed to create folder'' 500, d')
             | (Inr None, d') \<Rightarrow> (ErrorResponse ''Failed to create folder'' 500, d')
             | (Inr (Some folder), d') \<Rightarrow>
                 (SuccessResponse (getFolderById d' (folder_id folder) userId), d')))"

record updateFolderRequest =
  ureq_name :: "string option"
  ureq_description :: "string option"
  ureq_color :: "string option"
  ureq_icon :: "string option"
  ureq_order :: "int option"

text \<open>
  \<^verbatim>\<open>FolderController.updateFolder\<close>; \<open>folderId\<close> is \<^verbatim>\<open>context.pathParams.id\<close>, which
  may be absent or empty.
\<close>

definition FolderController_updateFolder ::
  "db \<Rightarrow> string \<Rightarrow> string option \<Rightarrow> updateFolderRequest \<Rightarrow> int
     \<Rightarrow> folderWithAppCount option response \<times> db" where
  "FolderController_updateFolder d userId folderId body now =
     (if folderId = None \<or> folderId = Some []
        then (ErrorResponse ''Folder ID is required'' 400, d)
      else if ureq_name body \<noteq> None \<and> length (trim (the (ureq_name body))) = 0
        then (ErrorResponse ''Folder name cannot be empty'' 400, d)
      else if ureq_name body \<noteq> None \<and> length (the (ureq_name body)) > 50
        then (ErrorResponse ''Folder name must be 50 characters or less'' 400, d)
      else
        (case updateFolder d (the folderId) userId
                \<lparr>upd_name = map_option trim (ureq_name body),
                 upd_description = map_option trim (ureq_description body),
                 upd_color = ureq_color body, upd_icon = ureq_icon body,
                 upd_order = ureq_order body\<rparr> now of
           (None, d') \<Rightarrow> (ErrorResponse ''Folder not found'' 404, d')
         | (Some updatedFolder, d') \<Rightarrow>
             (SuccessResponse (getFolderById d' (folder_id updatedFolder) userId), d')))"

text \<open>
  \<^verbatim>\<open>FolderDialog.handleSave\<close>, for both modes of the dialog: \<open>Inl\<close> is the message given
  to \<^verbatim>\<open>setError\<close> (nothing is sent), \<open>Inr\<close> the data handed to \<^verbatim>\<open>onSave\<close>.
  \<^verbatim>\<open>x || undefined\<close> turns the empty string into \<^verbatim>\<open>undefined\<close>.
\<close>

record folderFormData =
  form_name :: string
  form_description :: "string option"
  form_color :: "string option"
  form_icon :: "string option"

definition orUndefined :: "string option \<Rightarrow> string option" where
  "orUndefined x = (case x of None \<Rightarrow> None | Some s \<Rightarrow> if s = [] then None else Some s)"

definition handleSave :: "folderFormData \<Rightarrow> string + folderFormData" where
  "handleSave formData =
     (if trim (form_name formData) = [] then Inl ''Folder name is required''
      else if length (form_name formData) > 50
        then Inl ''Folder name must be 50 characters or less''
      else Inr \<lparr>form_name = trim (form_name formData),
                form_description = orUndefined (map_option trim (form_description formData)),
                form_color = orUndefined (form_color formData),
                form_icon = orUndefined (form_icon formData)\<rparr>)"

section \<open>The status tracker\<close>

datatype status = Active | Completed | Error | Info

record StatusActivity =
  activity_id :: string
  activity_timestamp :: int
  activity_type :: string
  activity_message :: string
  activity_status :: status

record tracker =
  activities :: "StatusActivity list"
  lastMessageTimestamp :: int
  websocketConnected :: bool

definition MAX_ACTIVITIES :: nat where
  "MAX_ACTIVITIES = 50"

text \<open>
  What the hook reads from outside while it handles one message: \<^verbatim>\<open>Date.now()\<close> in
  \<^verbatim>\<open>trackWebSocketMessage\<close>, then in \<^verbatim>\<open>addActivity\<close> \<^verbatim>\<open>Date.now()\<close> for the id, the
  random suffix of the id, \<^verbatim>\<open>Date.now()\<close> for the timestamp and \<^verbatim>\<open>Date.now()\<close> for the
  last-message time.
\<close>

record readings =
  at_track :: int
  at_id :: int
  random_suffix :: string
  at_stamp :: int
  at_last :: int

text \<open>Decimal rendering of an integer, as a template literal prints it.\<close>

fun digits_of_nat :: "nat \<Rightarrow> string" where
  "digits_of_nat n =
     (if n < 10 then [char_of (48 + n)]
      else digits_of_nat (n div 10) @ [char_of (48 + n mod 10)])"

declare digits_of_nat.simps [simp del]

definition show_int :: "int \<Rightarrow> string" where
  "show_int i = (if i < 0 then CHR ''-'' # digits_of_nat (nat (- i)) else digits_of_nat (nat i))"

text \<open>\<^verbatim>\<open>updated.slice(-MAX_ACTIVITIES)\<close> keeps the last \<open>MAX_ACTIVITIES\<close> entries.\<close>

definition addActivity :: "tracker \<Rightarrow> string \<Rightarrow> string \<Rightarrow> status \<Rightarrow> readings \<Rightarrow> tracker" where
  "addActivity s type message st r =
     (let activity = \<lparr>activity_id = show_int (at_id r) @ ''-'' @ random_suffix r,
                      activity_timestamp = at_stamp r,
                      activity_type = type,
                      activity_message = message,
                      activity_status = st\<rparr>;
          updated = activities s @ [activity]
      in s\<lparr>activities :=
             (if length updated > MAX_ACTIVITIES
              then drop (length updated - MAX_ACTIVITIES) updated
              else updated),
           lastMessageTimestamp := at_last r\<rparr>)"

text \<open>The fields of a \<^verbatim>\<open>WebSocketMessage\<close> that the tracker reads.\<close>

record webSocketMessage =
  msg_type :: string
  msg_message :: string
  msg_totalFiles :: int
  msg_filePath :: string
  msg_file_filePath :: string
  msg_error :: string
  msg_count :: int
  msg_tool :: "(string \<times> string) option"

text \<open>
  The \<^verbatim>\<open>switch\<close> of \<^verbatim>\<open>trackWebSocketMessage\<close>: the arguments of the
  \<^verbatim>\<open>addActivity\<close> call a message leads to, or \<open>None\<close> when its branch adds nothing.
  \<open>msg_tool\<close> is the pair of the tool's name and status.
\<close>

definition activityFor :: "webSocketMessage \<Rightarrow> (string \<times> string \<times> status) option" where
  "activityFor m =
     (let t = msg_type m in
      if t = ''generation_started'' then
        Some (''generation_started'',
              ''Starting code generation ('' @ show_int (msg_totalFiles m) @ '' files)'', Active)
      else if t = ''phase_generating'' then Some (''phase_generating'', msg_message m, Active)
      else if t = ''phase_generated'' then Some (''phase_generated'', msg_message m, Completed)
      else if t = ''phase_implementing'' then Some (''phase_implementing'', msg_message m, Active)
      else if t = ''phase_implemented'' then Some (''phase_implemented'', msg_message m, Completed)
      else if t = ''phase_validating'' then Some (''phase_validating'', msg_message m, Active)
      else if t = ''phase_validated'' then Some (''phase_validated'', msg_message m, Completed)
      else if t = ''file_generating'' then
        Some (''file_generating'', ''Generating: '' @ msg_filePath m, Active)
      else if t = ''file_generated'' then
        Some (''file_generated'', ''Completed: '' @ msg_file_filePath m, Completed)
      else if t = ''file_regenerating'' then
        Some (''file_regenerating'', ''Regenerating: '' @ msg_filePath m, Active)
      else if t = ''file_regenerated'' then
        Some (''file_regenerated'', ''Regenerated: '' @ msg_file_filePath m, Completed)
      else if t = ''deployment_started'' then
        Some (''deployment_started'', ''Deploying to preview sandbox'', Active)
      else if t = ''deployment_completed'' then
        Some (''deployment_completed'', ''Preview deployment completed'', Completed)
      else if t = ''deployment_failed'' then
        Some (''deployment_failed'', ''Deployment failed: '' @ msg_message m, Error)
      else if t = ''code_reviewing'' then
        Some (''code_reviewing'', ''Reviewing generated code'', Active)
      else if t = ''code_reviewed'' then
        Some (''code_reviewed'', ''Code review completed'', Completed)
      else if t = ''generation_complete'' then
        Some (''generation_complete'', ''Code generation completed'', Completed)
      else if t = ''generation_stopped'' then
        Some (''generation_stopped'', ''Code generation stopped'', Info)
      else if t = ''generation_resumed'' then
        Some (''generation_resumed'', ''Code generation resumed'', Active)
      else if t = ''cloudflare_deployment_started'' then
        Some (''cloudflare_deployment_started'', ''Deploying to Cloudflare Workers'', Active)
      else if t = ''cloudflare_deployment_completed'' then
        Some (''cloudflare_deployment_completed'', ''Cloudflare deployment completed'', Completed)
      else if t = ''cloudflare_deployment_error'' then
        Some (''cloudflare_deployment_error'', ''Deployment error: '' @ msg_error m, Error)
      else if t = ''runtime_error_found'' then
        Some (''runtime_error_found'',
              ''Runtime errors detected ('' @ show_int (msg_count m) @ '')'', Error)
      else if t = ''deterministic_code_fix_started'' then
        Some (''deterministic_code_fix_started'', ''Fixing code issues'', Active)
      else if t = ''deterministic_code_fix_completed'' then
        Some (''deterministic_code_fix_completed'', ''Code fixes applied'', Completed)
      else if t = ''conversation_response'' then
        (case msg_tool m of
           None \<Rightarrow> None
         | Some (toolName, toolStatus) \<Rightarrow>
             if toolStatus = ''start'' then
               Some (''tool_start'', ''Running tool: '' @ toolName, Active)
             else if toolStatus = ''success'' then
               Some (''tool_success'', ''Tool completed: '' @ toolName, Completed)
             else if toolStatus = ''error'' then
               Some (''tool_error'', ''Tool failed: '' @ toolName, Error)
             else None)
      else if t = ''error'' then Some (''error'', msg_error m, Error)
      else if t = ''rate_limit_error'' then
        Some (''rate_limit_error'', ''Rate limit exceeded'', Error)
      else if t = ''cf_agent_state'' \<or> t = ''file_chunk_generated'' then None
      else if length t \<le> 50 then Some (t, ''Event: '' @ t, Info)
      else None)"

definition trackWebSocketMessage :: "tracker \<Rightarrow> webSocketMessage \<Rightarrow> readings \<Rightarrow> tracker" where
  "trackWebSocketMessage s m r =
     (let s1 = s\<lparr>lastMessageTimestamp := at_track r\<rparr>
      in case activityFor m of
           None \<Rightarrow> s1
         | Some (type, message, st) \<Rightarrow> addActivity s1 type message st r)"

text \<open>
  The state of a freshly mounted hook (\<open>t0\<close> is \<^verbatim>\<open>Date.now()\<close> at mount), and a stream
  of messages handled one after the other.
\<close>

definition initialTracker :: "int \<Rightarrow> tracker" where
  "initialTracker t0 = \<lparr>activities = [], lastMessageTimestamp = t0, websocketConnected = False\<rparr>"

definition trackAll :: "tracker \<Rightarrow> (webSocketMessage \<times> readings) list \<Rightarrow> tracker" where
  "trackAll s ms = fold (\<lambda>(m, r) s'. trackWebSocketMessage s' m r) ms s"

text \<open>The activity that \<^verbatim>\<open>addActivity\<close> builds for a \<^verbatim>\<open>phase_generating\<close> message.\<close>

definition phaseGeneratingActivity :: "webSocketMessage \<times> readings \<Rightarrow> StatusActivity" where
  "phaseGeneratingActivity mr =
     \<lparr>activity_id = show_int (at_id (snd mr)) @ ''-'' @ random_suffix (snd mr),
      activity_timestamp = at_stamp (snd mr),
      activity_type = ''phase_generating'',
      activity_message = msg_message (fst mr),
      activity_status = Active\<rparr>"

section \<open>Ownership, associations and sample data\<close>

text \<open>
  An app belongs to a user when the row that \<^verbatim>\<open>moveAppToFolder\<close> reads for its id has
  that user as owner; a folder belongs to a user when a row with its id and that owner
  exists. The associations of an app are its rows in \<^verbatim>\<open>app_folders\<close>.
\<close>

definition appOwnedBy :: "db \<Rightarrow> string \<Rightarrow> string \<Rightarrow> bool" where
  "appOwnedBy d appId userId =
     (case first_row (filter (\<lambda>a. app_id a = appId) (apps d)) of
        None \<Rightarrow> False
      | Some a \<Rightarrow> app_userId a = userId)"

definition folderOwnedBy :: "db \<Rightarrow> string \<Rightarrow> string \<Rightarrow> bool" where
  "folderOwnedBy d folderId userId =
     (\<exists>f \<in> set (folders d). folder_id f = folderId \<and> folder_userId f = userId)"

definition associationsOf :: "db \<Rightarrow> string \<Rightarrow> appFolder list" where
  "associationsOf d appId = filter (\<lambda>r. af_appId r = appId) (appFolders d)"

text \<open>
  The invariant of the association table that the service keeps (it is not a constraint
  of the schema): an app has at most one association.
\<close>

definition oneFolderPerApp :: "db \<Rightarrow> bool" where
  "oneFolderPerApp d = distinct (map af_appId (appFolders d))"

text \<open>Sample rows and a sample store, used to instantiate the theorems below.\<close>

definition mkFolder :: "string \<Rightarrow> string \<Rightarrow> string \<Rightarrow> int \<Rightarrow> folder" where
  "mkFolder i u n k =
     \<lparr>folder_id = i, folder_userId = u, folder_name = n, folder_description = None,
      folder_color = None, folder_icon = None, folder_order = k,
      folder_createdAt = 1000, folder_updatedAt = 1000\<rparr>"

definition mkApp :: "string \<Rightarrow> string \<Rightarrow> int \<Rightarrow> app" where
  "mkApp i u t =
     \<lparr>app_id = i, app_userId = u, app_title = ''app'', app_description = None,
      app_framework = None, app_status = ''completed'', app_visibility = ''private'',
      app_createdAt = 1000, app_updatedAt = t\<rparr>"

definition exampleDb :: db where
  "exampleDb =
     \<lparr>folders = [mkFolder ''f1'' ''u1'' ''Work'' 0, mkFolder ''f2'' ''u1'' ''Personal'' 1,
                 mkFolder ''f3'' ''u2'' ''Misc'' 0],
      appFolders = [\<lparr>af_id = ''l1'', af_appId = ''a1'', af_folderId = ''f1'', af_addedAt = 1500\<rparr>],
      apps = [mkApp ''a1'' ''u1'' 2000, mkApp ''a2'' ''u2'' 3000]\<rparr>"








text \<open>Sample request bodies and form contents, by name.\<close>

definition exampleBody :: "string \<Rightarrow> createFolderRequest" where
  "exampleBody n =
     \<lparr>req_name = Some n, req_description = None, req_color = Some ''#3b82f6'', req_icon = None\<rparr>"

definition exampleForm :: "string \<Rightarrow> folderFormData" where
  "exampleForm n =
     \<lparr>form_name = n, form_description = Some [], form_color = Some [], form_icon = Some []\<rparr>"

definition exampleUpdateBody :: "string \<Rightarrow> updateFolderRequest" where
  "exampleUpdateBody n =
     \<lparr>ureq_name = Some n, ureq_description = None, ureq_color = None, ureq_icon = None,
      ureq_order = None\<rparr>"

text \<open>A stream of 60 \<^verbatim>\<open>phase_generating\<close> messages, 10 ms apart.\<close>

definition exampleMessages :: "(webSocketMessage \<times> readings) list" where
  "exampleMessages =
     map (\<lambda>k. (\<lparr>msg_type = ''phase_generating'', msg_message = ''Generating phase'',
                  msg_totalFiles = 0, msg_filePath = [], msg_file_filePath = [],
                  msg_error = [], msg_count = 0, msg_tool = None\<rparr>,
                 \<lparr>at_track = 1000 + 10 * int k, at_id = 1001 + 10 * int k,
                  random_suffix = ''k3x9q2a'', at_stamp = 1002 + 10 * int k,
                  at_last = 1003 + 10 * int k\<rparr>))
       [0..<60]"

section \<open>Properties of the folder service\<close>

lemma first_row_None [simp]: "first_row xs = None \<longleftrightarrow> xs = []"
  by (cases xs) (simp_all add: first_row_def)

lemma first_row_Cons [simp]: "first_row (x # xs) = Some x"
  by (simp add: first_row_def)

lemma first_row_Nil [simp]: "first_row [] = None"
  by (simp add: first_row_def)

lemma getFolderById_None: "getFolderById d F U = None \<longleftrightarrow> \<not> folderOwnedBy d F U"
  by (auto simp: getFolderById_def folderOwnedBy_def filter_empty_conv)

subsection \<open>Moving an app\<close>

lemma move_null:
  assumes "appOwnedBy d A U"
  shows "moveAppToFolder d A None U i t = (Inr True, delete_appFolders d (\<lambda>r. af_appId r = A))"
  using assms by (auto simp: moveAppToFolder_def appOwnedBy_def split: option.splits)

lemma move_some:
  assumes "appOwnedBy d A U" "folderOwnedBy d F U"
    and "i \<notin> set (map af_id (filter (\<lambda>r. \<not> af_appId r = A) (appFolders d)))"
  shows "moveAppToFolder d A (Some F) U i t =
     (Inr True, d\<lparr>appFolders := filter (\<lambda>r. \<not> af_appId r = A) (appFolders d)
          @ [\<lparr>af_id = i, af_appId = A, af_folderId = F, af_addedAt = t\<rparr>]\<rparr>)"
proof -
  from assms(1) obtain a
    where a: "first_row (filter (\<lambda>a. app_id a = A) (apps d)) = Some a" "app_userId a = U"
    by (auto simp: appOwnedBy_def split: option.splits)
  from a(1) have "a \<in> set (apps d)" "app_id a = A"
    by (auto simp: first_row_def split: list.splits dest: filter_eq_ConsD Cons_eq_filterD)
  hence inA: "A \<in> app_id ` set (apps d)" by auto
  from assms(2) have inF: "F \<in> folder_id ` set (folders d)"
    by (auto simp: folderOwnedBy_def)
  from assms(2) obtain fw where fw: "getFolderById d F U = Some fw"
    using getFolderById_None [of d F U] by (cases "getFolderById d F U") auto
  show ?thesis
    using a fw inA inF assms(3)
    by (auto simp: moveAppToFolder_def delete_appFolders_def insert_appFolder_def Let_def)
qed

text \<open>
  Claim C7. For an app \<open>A\<close> of user \<open>U\<close>, \<^verbatim>\<open>moveAppToFolder(A, null, U)\<close> returns
  \<^verbatim>\<open>true\<close> and leaves \<open>A\<close> without any association, all other rows as they were; a
  second call with \<^verbatim>\<open>null\<close> returns \<^verbatim>\<open>true\<close> again and changes nothing.
\<close>

theorem moveAppToFolder_null_idempotent:
  assumes "appOwnedBy d A U"
  shows "fst (moveAppToFolder d A None U i t) = Inr True
       \<and> associationsOf (snd (moveAppToFolder d A None U i t)) A = []
       \<and> snd (moveAppToFolder d A None U i t)
           = d\<lparr>appFolders := filter (\<lambda>r. af_appId r \<noteq> A) (appFolders d)\<rparr>
       \<and> moveAppToFolder (snd (moveAppToFolder d A None U i t)) A None U i' t'
           = (Inr True, snd (moveAppToFolder d A None U i t))"
proof -
  let ?d1 = "delete_appFolders d (\<lambda>r. af_appId r = A)"
  have own1: "appOwnedBy ?d1 A U"
    using assms by (simp add: appOwnedBy_def delete_appFolders_def)
  have again: "delete_appFolders ?d1 (\<lambda>r. af_appId r = A) = ?d1"
    by (simp add: delete_appFolders_def)
  show ?thesis
    using move_null [OF assms] move_null [OF own1] again
    by (simp add: associationsOf_def delete_appFolders_def)
qed

theorem moveAppToFolder_null_idempotent_witness:
  "appOwnedBy exampleDb ''a1'' ''u1''
   \<and> associationsOf exampleDb ''a1'' \<noteq> []
   \<and> fst (moveAppToFolder exampleDb ''a1'' None ''u1'' ''l2'' 5000) = Inr True
   \<and> associationsOf (snd (moveAppToFolder exampleDb ''a1'' None ''u1'' ''l2'' 5000)) ''a1'' = []
   \<and> moveAppToFolder (snd (moveAppToFolder exampleDb ''a1'' None ''u1'' ''l2'' 5000))
         ''a1'' None ''u1'' ''l3'' 6000
       = (Inr True, snd (moveAppToFolder exampleDb ''a1'' None ''u1'' ''l2'' 5000))"
proof -
  have h: "appOwnedBy exampleDb ''a1'' ''u1''"
    by (simp add: appOwnedBy_def exampleDb_def mkApp_def)
  have n: "associationsOf exampleDb ''a1'' \<noteq> []"
    by (simp add: associationsOf_def exampleDb_def)
  show ?thesis
    using h n moveAppToFolder_null_idempotent [OF h, of "''l2''" 5000 "''l3''" 6000]
    by blast
qed

text \<open>
  Claim C1. For an app \<open>A\<close> and folders \<open>F\<close> and \<open>G\<close> of user \<open>U\<close> (and ids from
  \<^verbatim>\<open>generateId\<close> that no association row carries yet), moving \<open>A\<close> to \<open>F\<close> and then to
  \<open>G\<close> succeeds twice and leaves exactly one association for \<open>A\<close>, the one to \<open>G\<close>,
  whatever associations \<open>A\<close> had before.
\<close>

theorem moveAppToFolder_twice_single_association:
  assumes "appOwnedBy d A U" "folderOwnedBy d F U" "folderOwnedBy d G U"
    and "i1 \<notin> set (map af_id (appFolders d))" "i2 \<notin> set (map af_id (appFolders d))"
  shows "fst (moveAppToFolder d A (Some F) U i1 t1) = Inr True
       \<and> fst (moveAppToFolder (snd (moveAppToFolder d A (Some F) U i1 t1)) A (Some G) U i2 t2)
           = Inr True
       \<and> associationsOf
            (snd (moveAppToFolder (snd (moveAppToFolder d A (Some F) U i1 t1)) A (Some G) U i2 t2)) A
           = [\<lparr>af_id = i2, af_appId = A, af_folderId = G, af_addedAt = t2\<rparr>]"
proof -
  let ?d1 = "d\<lparr>appFolders := filter (\<lambda>r. \<not> af_appId r = A) (appFolders d)
          @ [\<lparr>af_id = i1, af_appId = A, af_folderId = F, af_addedAt = t1\<rparr>]\<rparr>"
  have fresh1: "i1 \<notin> set (map af_id (filter (\<lambda>r. \<not> af_appId r = A) (appFolders d)))"
    using assms(4) by auto
  have m1: "moveAppToFolder d A (Some F) U i1 t1 = (Inr True, ?d1)"
    by (rule move_some [OF assms(1,2) fresh1])
  have own1: "appOwnedBy ?d1 A U"
    using assms(1) by (simp add: appOwnedBy_def)
  have g1: "folderOwnedBy ?d1 G U"
    using assms(3) by (simp add: folderOwnedBy_def)
  have fresh2: "i2 \<notin> set (map af_id (filter (\<lambda>r. \<not> af_appId r = A) (appFolders ?d1)))"
    using assms(5) by auto
  show ?thesis
    unfolding m1 fst_conv snd_conv
    by (simp add: move_some [OF own1 g1 fresh2] associationsOf_def)
qed

theorem moveAppToFolder_twice_single_association_witness:
  "appOwnedBy exampleDb ''a1'' ''u1'' \<and> folderOwnedBy exampleDb ''f1'' ''u1''
   \<and> folderOwnedBy exampleDb ''f2'' ''u1''
   \<and> ''l2'' \<notin> set (map af_id (appFolders exampleDb))
   \<and> ''l3'' \<notin> set (map af_id (appFolders exampleDb))
   \<and> associationsOf
        (snd (moveAppToFolder (snd (moveAppToFolder exampleDb ''a1'' (Some ''f1'') ''u1'' ''l2'' 5000))
                ''a1'' (Some ''f2'') ''u1'' ''l3'' 6000)) ''a1''
       = [\<lparr>af_id = ''l3'', af_appId = ''a1'', af_folderId = ''f2'', af_addedAt = 6000\<rparr>]"
proof -
  have h1: "appOwnedBy exampleDb ''a1'' ''u1''"
    by (simp add: appOwnedBy_def exampleDb_def mkApp_def)
  have h2: "folderOwnedBy exampleDb ''f1'' ''u1''"
    by (simp add: folderOwnedBy_def exampleDb_def mkFolder_def)
  have h3: "folderOwnedBy exampleDb ''f2'' ''u1''"
    by (simp add: folderOwnedBy_def exampleDb_def mkFolder_def)
  have h4: "''l2'' \<notin> set (map af_id (appFolders exampleDb))"
    by (simp add: exampleDb_def)
  have h5: "''l3'' \<notin> set (map af_id (appFolders exampleDb))"
    by (simp add: exampleDb_def)
  show ?thesis
    using h1 h2 h3 h4 h5
      moveAppToFolder_twice_single_association [OF h1 h2 h3 h4 h5, of 5000 6000]
    by blast
qed

subsection \<open>Ownership failures\<close>

lemma not_owned_by_other:
  assumes "distinct (map folder_id (folders d))" "U \<noteq> V"
    and "folderOwnedBy d F V \<or> F \<notin> set (map folder_id (folders d))"
  shows "\<not> folderOwnedBy d F U"
proof
  assume "folderOwnedBy d F U"
  then obtain f where f: "f \<in> set (folders d)" "folder_id f = F" "folder_userId f = U"
    by (auto simp: folderOwnedBy_def)
  hence "F \<in> set (map folder_id (folders d))" by auto
  with assms(3) obtain g where g: "g \<in> set (folders d)" "folder_id g = F" "folder_userId g = V"
    by (auto simp: folderOwnedBy_def)
  from assms(1) f(1,2) g(1,2) have "f = g"
    by (auto simp: distinct_map inj_on_def)
  with f(3) g(3) assms(2) show False by simp
qed

lemma first_row_filter_SomeD:
  "first_row (filter P xs) = Some x \<Longrightarrow> x \<in> set xs \<and> P x"
  by (auto simp: first_row_def split: list.splits dest: Cons_eq_filterD filter_eq_ConsD)

lemma app_not_owned_by_other:
  assumes "U \<noteq> V" "appOwnedBy d B V \<or> B \<notin> set (map app_id (apps d))"
  shows "\<not> appOwnedBy d B U"
  using assms
  by (auto simp: appOwnedBy_def filter_empty_conv split: option.splits
        dest!: first_row_filter_SomeD)

lemma move_not_owned_app:
  "\<not> appOwnedBy d B U \<Longrightarrow> moveAppToFolder d B X U i t = (Inr False, d)"
  by (auto simp: moveAppToFolder_def appOwnedBy_def split: option.splits)

lemma move_not_owned_folder:
  "\<not> folderOwnedBy d F U \<Longrightarrow> moveAppToFolder d A (Some F) U i t = (Inr False, d)"
  using getFolderById_None [of d F U]
  by (auto simp: moveAppToFolder_def split: option.splits)

text \<open>
  Claim C3. Let folder \<open>F\<close> belong to a user \<open>V\<close> other than \<open>U\<close>, or not exist at
  all, and likewise app \<open>B\<close>. Then for \<open>U\<close>, \<^verbatim>\<open>getFolderById\<close> and \<^verbatim>\<open>updateFolder\<close>
  return \<^verbatim>\<open>null\<close>, \<^verbatim>\<open>deleteFolder\<close> returns \<^verbatim>\<open>false\<close>, and \<^verbatim>\<open>moveAppToFolder\<close> returns
  \<^verbatim>\<open>false\<close> both for any app moved into \<open>F\<close> and for \<open>B\<close> moved anywhere; nothing is
  thrown and the store is unchanged. (Folder ids are the primary key of their table.)
\<close>

theorem foreign_folder_not_found:
  assumes "distinct (map folder_id (folders d))" and "U \<noteq> V"
    and "folderOwnedBy d F V \<or> F \<notin> set (map folder_id (folders d))"
    and "appOwnedBy d B V \<or> B \<notin> set (map app_id (apps d))"
  shows "getFolderById d F U = None
       \<and> updateFolder d F U updates now = (None, d)
       \<and> deleteFolder d F U = (False, d)
       \<and> moveAppToFolder d A (Some F) U i t = (Inr False, d)
       \<and> moveAppToFolder d B X U i t = (Inr False, d)"
proof -
  have nf: "getFolderById d F U = None"
    using not_owned_by_other [OF assms(1,2,3)] by (simp add: getFolderById_None)
  have na: "\<not> appOwnedBy d B U"
    by (rule app_not_owned_by_other [OF assms(2,4)])
  have nu: "\<not> folderOwnedBy d F U"
    by (rule not_owned_by_other [OF assms(1,2,3)])
  show ?thesis
    using nf move_not_owned_app [OF na] move_not_owned_folder [OF nu]
    by (simp add: updateFolder_def deleteFolder_def)
qed

theorem foreign_folder_not_found_witness:
  "distinct (map folder_id (folders exampleDb)) \<and> ''u1'' \<noteq> ''u2''
   \<and> folderOwnedBy exampleDb ''f3'' ''u2'' \<and> appOwnedBy exampleDb ''a2'' ''u2''
   \<and> getFolderById exampleDb ''f3'' ''u1'' = None
   \<and> updateFolder exampleDb ''f3'' ''u1''
        \<lparr>upd_name = Some ''Mine'', upd_description = None, upd_color = None,
         upd_icon = None, upd_order = None\<rparr> 7000 = (None, exampleDb)
   \<and> deleteFolder exampleDb ''f3'' ''u1'' = (False, exampleDb)
   \<and> moveAppToFolder exampleDb ''a1'' (Some ''f3'') ''u1'' ''l2'' 7000 = (Inr False, exampleDb)
   \<and> moveAppToFolder exampleDb ''a2'' (Some ''f1'') ''u1'' ''l2'' 7000 = (Inr False, exampleDb)"
proof -
  have h1: "distinct (map folder_id (folders exampleDb))"
    by (simp add: exampleDb_def mkFolder_def)
  have h2: "''u1'' \<noteq> ''u2''" by simp
  have h3: "folderOwnedBy exampleDb ''f3'' ''u2''"
    by (simp add: folderOwnedBy_def exampleDb_def mkFolder_def)
  have h4: "appOwnedBy exampleDb ''a2'' ''u2''"
    by (simp add: appOwnedBy_def exampleDb_def mkApp_def)
  show ?thesis
    using h1 h3 h4 foreign_folder_not_found [OF h1 h2 disjI1 [OF h3] disjI1 [OF h4],
        of "\<lparr>upd_name = Some ''Mine'', upd_description = None, upd_color = None,
         upd_icon = None, upd_order = None\<rparr>" 7000 "''a1''" "''l2''" 7000 "Some ''f1''"]
    by blast
qed

subsection \<open>Deleting a folder\<close>

lemma deleteFolder_owned:
  assumes "folderOwnedBy d F U"
  shows "deleteFolder d F U =
    (True, d\<lparr>folders := filter (\<lambda>f. \<not> (folder_id f = F \<and> folder_userId f = U)) (folders d),
             appFolders := filter (\<lambda>r. af_folderId r \<noteq> F) (appFolders d)\<rparr>)"
proof -
  from assms obtain fw where fw: "getFolderById d F U = Some fw"
    using getFolderById_None [of d F U] by (cases "getFolderById d F U") auto
  have "filter (\<lambda>r. af_folderId r \<noteq> F \<and> af_folderId r \<notin> folder_id ` {f \<in> set (folders d). folder_id f = F \<and> folder_userId f = U})
          (appFolders d) = filter (\<lambda>r. af_folderId r \<noteq> F) (appFolders d)"
    by (rule filter_cong) auto
  thus ?thesis using fw
    by (simp add: deleteFolder_def delete_appFolders_def delete_folders_def Let_def)
qed

text \<open>
  Claim C4. For a folder \<open>F\<close> of the calling user, \<^verbatim>\<open>deleteFolder\<close> returns \<^verbatim>\<open>true\<close>;
  the associations of \<open>F\<close> and the row of \<open>F\<close> are gone and everything else is as
  before. In a store where every app has at most one association (the invariant that
  every operation of the service keeps, see below), \<^verbatim>\<open>getAppFolder\<close> then returns
  \<^verbatim>\<open>null\<close> for every app that was associated with \<open>F\<close>.
\<close>

theorem deleteFolder_removes_associations:
  assumes "folderOwnedBy d F U"
  shows "fst (deleteFolder d F U) = True
       \<and> appFolders (snd (deleteFolder d F U)) = filter (\<lambda>r. af_folderId r \<noteq> F) (appFolders d)
       \<and> folders (snd (deleteFolder d F U))
           = filter (\<lambda>f. \<not> (folder_id f = F \<and> folder_userId f = U)) (folders d)
       \<and> apps (snd (deleteFolder d F U)) = apps d
       \<and> \<not> folderOwnedBy (snd (deleteFolder d F U)) F U
       \<and> (oneFolderPerApp d \<longrightarrow>
            (\<forall>r \<in> set (appFolders d). af_folderId r = F \<longrightarrow>
               getAppFolder (snd (deleteFolder d F U)) (af_appId r) = None))"
proof -
  have gone: "getAppFolder (snd (deleteFolder d F U)) (af_appId r) = None"
    if inv: "oneFolderPerApp d" and r: "r \<in> set (appFolders d)" "af_folderId r = F" for r
  proof -
    have "r' = r" if "r' \<in> set (appFolders d)" "af_appId r' = af_appId r" for r'
      using inv r(1) that by (auto simp: oneFolderPerApp_def distinct_map inj_on_def)
    hence "filter (\<lambda>x. af_appId x = af_appId r) (filter (\<lambda>x. af_folderId x \<noteq> F) (appFolders d)) = []"
      using r(2) by (auto simp: filter_empty_conv)
    thus ?thesis
      by (simp add: deleteFolder_owned [OF assms(1)] getAppFolder_def)
  qed
  show ?thesis
    using gone by (simp add: deleteFolder_owned [OF assms(1)] folderOwnedBy_def)
qed

text \<open>Every operation of the service keeps \<open>oneFolderPerApp\<close>.\<close>

lemma oneFolderPerApp_move:
  assumes "oneFolderPerApp d"
  shows "oneFolderPerApp (snd (moveAppToFolder d A X U i t))"
  using assms
  by (auto simp: oneFolderPerApp_def moveAppToFolder_def delete_appFolders_def
        insert_appFolder_def Let_def distinct_map_filter
        split: option.splits sum.splits if_splits)

lemma oneFolderPerApp_delete:
  assumes "oneFolderPerApp d"
  shows "oneFolderPerApp (snd (deleteFolder d F U))"
  using assms
  by (auto simp: oneFolderPerApp_def deleteFolder_def delete_appFolders_def
        delete_folders_def Let_def distinct_map_filter split: option.splits)

lemma oneFolderPerApp_create:
  "oneFolderPerApp (snd (createFolder d U fd fid now)) = oneFolderPerApp d"
  by (auto simp: oneFolderPerApp_def createFolder_def insert_folder_def Let_def)

lemma oneFolderPerApp_update:
  "oneFolderPerApp (snd (updateFolder d F U upd now)) = oneFolderPerApp d"
  by (auto simp: oneFolderPerApp_def updateFolder_def update_folders_def Let_def
        split: option.splits)

theorem deleteFolder_removes_associations_witness:
  "folderOwnedBy exampleDb ''f1'' ''u1'' \<and> oneFolderPerApp exampleDb
   \<and> getAppFolder exampleDb ''a1'' = Some ''f1''
   \<and> fst (deleteFolder exampleDb ''f1'' ''u1'') = True
   \<and> getAppFolder (snd (deleteFolder exampleDb ''f1'' ''u1'')) ''a1'' = None"
proof -
  have h1: "folderOwnedBy exampleDb ''f1'' ''u1''"
    by (simp add: folderOwnedBy_def exampleDb_def mkFolder_def)
  have h2: "oneFolderPerApp exampleDb"
    by (simp add: oneFolderPerApp_def exampleDb_def)
  have h3: "getAppFolder exampleDb ''a1'' = Some ''f1''"
    by (simp add: getAppFolder_def exampleDb_def)
  have h4: "\<lparr>af_id = ''l1'', af_appId = ''a1'', af_folderId = ''f1'', af_addedAt = 1500\<rparr>
              \<in> set (appFolders exampleDb)"
    by (simp add: exampleDb_def)
  from deleteFolder_removes_associations [OF h1] h2 h4
  have "fst (deleteFolder exampleDb ''f1'' ''u1'') = True
      \<and> getAppFolder (snd (deleteFolder exampleDb ''f1'' ''u1'')) ''a1'' = None"
    by fastforce
  with h1 h2 h3 show ?thesis by simp
qed

subsection \<open>Updating a folder\<close>

lemma updateFolder_owned:
  assumes "folderOwnedBy d F U"
  shows "snd (updateFolder d F U upd now) =
     d\<lparr>folders := map (\<lambda>f. if folder_id f = F \<and> folder_userId f = U
                             then applyUpdates upd now f else f) (folders d)\<rparr>"
proof -
  from assms obtain fw where fw: "getFolderById d F U = Some fw"
    using getFolderById_None [of d F U] by (cases "getFolderById d F U") auto
  thus ?thesis by (simp add: updateFolder_def update_folders_def Let_def)
qed

lemma applyUpdates_id [simp]: "folder_id (applyUpdates upd now f) = folder_id f"
  by (simp add: applyUpdates_def)

lemma applyUpdates_userId [simp]: "folder_userId (applyUpdates upd now f) = folder_userId f"
  by (simp add: applyUpdates_def)

lemma first_row_filter_map_distinct:
  assumes "distinct (map k xs)" "x \<in> set xs" "\<And>y. k (g y) = k y"
  shows "first_row (filter (\<lambda>y. k y = k x) (map g xs)) = Some (g x)"
  using assms
proof (induction xs)
  case Nil
  then show ?case by simp
next
  case (Cons a xs)
  show ?case
  proof (cases "a = x")
    case True
    then show ?thesis using Cons.prems(3) by simp
  next
    case False
    with Cons.prems have "x \<in> set xs" "k a \<noteq> k x" by auto
    with Cons show ?thesis by simp
  qed
qed

text \<open>
  Claim C8. A successful \<^verbatim>\<open>updateFolder\<close> on the row \<open>f\<close> (folder ids are the primary key)
  returns the updated row \<open>f'\<close> and replaces \<open>f\<close> by it; every other folder row, and
  the other tables, stay as they were. In \<open>f'\<close> each field given in the update has the
  new value, each field not given has its value from \<open>f\<close>, id, owner and creation time
  are those of \<open>f\<close>, and \<^verbatim>\<open>updatedAt\<close> is the time of the call, whatever the update holds.
\<close>

theorem updateFolder_frame:
  assumes "distinct (map folder_id (folders d))"
    and "f \<in> set (folders d)" "folder_id f = F" "folder_userId f = U"
  shows "\<exists>f'. updateFolder d F U upd now
           = (Some f', d\<lparr>folders := map (\<lambda>g. if folder_id g = F then f' else g) (folders d)\<rparr>)
       \<and> folder_id f' = folder_id f \<and> folder_userId f' = folder_userId f
       \<and> folder_createdAt f' = folder_createdAt f
       \<and> folder_updatedAt f' = now
       \<and> folder_name f' = (case upd_name upd of None \<Rightarrow> folder_name f | Some v \<Rightarrow> v)
       \<and> folder_description f'
           = (case upd_description upd of None \<Rightarrow> folder_description f | Some v \<Rightarrow> Some v)
       \<and> folder_color f' = (case upd_color upd of None \<Rightarrow> folder_color f | Some v \<Rightarrow> Some v)
       \<and> folder_icon f' = (case upd_icon upd of None \<Rightarrow> folder_icon f | Some v \<Rightarrow> Some v)
       \<and> folder_order f' = (case upd_order upd of None \<Rightarrow> folder_order f | Some v \<Rightarrow> v)"
proof -
  have own: "folderOwnedBy d F U"
    using assms(2-4) by (auto simp: folderOwnedBy_def)
  then obtain fw where fw: "getFolderById d F U = Some fw"
    using getFolderById_None [of d F U] by (cases "getFolderById d F U") auto
  let ?g = "\<lambda>g. if folder_id g = F \<and> folder_userId g = U then applyUpdates upd now g else g"
  have uniq: "g = f" if "g \<in> set (folders d)" "folder_id g = F" for g
    using assms(1,2,3) that by (auto simp: distinct_map inj_on_def)
  have same: "map ?g (folders d)
      = map (\<lambda>g. if folder_id g = F then applyUpdates upd now f else g) (folders d)"
    using uniq assms(4) by (auto intro!: map_cong)
  have k: "folder_id (?g y) = folder_id y" for y by simp
  have "first_row (filter (\<lambda>y. folder_id y = folder_id f) (map ?g (folders d))) = Some (?g f)"
    by (rule first_row_filter_map_distinct [OF assms(1,2)]) (rule k)
  hence ret: "first_row (filter (\<lambda>y. folder_id y = F) (map ?g (folders d)))
      = Some (applyUpdates upd now f)"
    using assms(3,4) by simp
  have "updateFolder d F U upd now
      = (Some (applyUpdates upd now f),
         d\<lparr>folders := map (\<lambda>g. if folder_id g = F then applyUpdates upd now f else g) (folders d)\<rparr>)"
  proof -
    have "updateFolder d F U upd now
        = (first_row (filter (\<lambda>y. folder_id y = F) (map ?g (folders d))),
           d\<lparr>folders := map ?g (folders d)\<rparr>)"
      using fw by (simp add: updateFolder_def update_folders_def Let_def)
    hence "updateFolder d F U upd now
        = (Some (applyUpdates upd now f), d\<lparr>folders := map ?g (folders d)\<rparr>)"
      by (simp only: ret)
    thus ?thesis by (simp only: same)
  qed
  thus ?thesis
    by (intro exI [of _ "applyUpdates upd now f"]) (simp add: applyUpdates_def)
qed

theorem updateFolder_frame_witness:
  "distinct (map folder_id (folders exampleDb))
   \<and> mkFolder ''f1'' ''u1'' ''Work'' 0 \<in> set (folders exampleDb)
   \<and> (\<exists>f'. fst (updateFolder exampleDb ''f1'' ''u1''
               \<lparr>upd_name = Some ''Jobs'', upd_description = None, upd_color = None,
                upd_icon = None, upd_order = None\<rparr> 9000) = Some f'
          \<and> folder_name f' = ''Jobs'' \<and> folder_order f' = 0 \<and> folder_color f' = None
          \<and> folder_updatedAt f' = 9000 \<and> folder_createdAt f' = 1000)"
proof -
  have h1: "distinct (map folder_id (folders exampleDb))"
    by (simp add: exampleDb_def mkFolder_def)
  have h2: "mkFolder ''f1'' ''u1'' ''Work'' 0 \<in> set (folders exampleDb)"
    by (simp add: exampleDb_def)
  have h3: "folder_id (mkFolder ''f1'' ''u1'' ''Work'' 0) = ''f1''"
    by (simp add: mkFolder_def)
  have h4: "folder_userId (mkFolder ''f1'' ''u1'' ''Work'' 0) = ''u1''"
    by (simp add: mkFolder_def)
  from updateFolder_frame [OF h1 h2 h3 h4,
      of "\<lparr>upd_name = Some ''Jobs'', upd_description = None, upd_color = None,
                upd_icon = None, upd_order = None\<rparr>" 9000]
  obtain f' where "fst (updateFolder exampleDb ''f1'' ''u1''
               \<lparr>upd_name = Some ''Jobs'', upd_description = None, upd_color = None,
                upd_icon = None, upd_order = None\<rparr> 9000) = Some f'"
     "folder_name f' = ''Jobs''" "folder_order f' = 0" "folder_color f' = None"
     "folder_updatedAt f' = 9000" "folder_createdAt f' = 1000"
    by (auto simp: mkFolder_def)
  with h1 h2 show ?thesis by blast
qed

subsection \<open>Creating folders\<close>






lemma createFolder_fresh:
  assumes "fid \<notin> set (map folder_id (folders d))"
  shows "createFolder d U fd fid now =
     (let f = \<lparr>folder_id = fid, folder_userId = U, folder_name = name fd,
               folder_description = description fd, folder_color = color fd,
               folder_icon = icon fd, folder_order = jsAdd (maxOrder d U) 1,
               folder_createdAt = now, folder_updatedAt = now\<rparr>
      in (Inr (Some f), d\<lparr>folders := folders d @ [f]\<rparr>))"
proof -
  have "filter (\<lambda>f. folder_id f = fid) (folders d) = []"
    using assms by (auto simp: filter_empty_conv)
  thus ?thesis using assms
    by (simp add: createFolder_def insert_folder_def Let_def)
qed









subsection \<open>Listing folders\<close>

lemma withAppCount_fields:
  "appCount (withAppCount d f) = length (filter (\<lambda>r. af_folderId r = folder_id f) (appFolders d))
   \<and> folder.truncate (withAppCount d f) = f"
  by (simp add: withAppCount_def folder.extend_def folder.truncate_def)

text \<open>
  Claim C5. \<^verbatim>\<open>getUserFolders\<close> returns exactly the user's folders, each once, each with the
  number of its association rows as \<^verbatim>\<open>appCount\<close>, sorted by order descending and, among
  equal orders, by name ascending.
\<close>

theorem getUserFolders_sorted:
  "mset (getUserFolders d U)
     = mset (map (withAppCount d) (filter (\<lambda>f. folder_userId f = U) (folders d)))
   \<and> sorted_wrt (\<lambda>a b. folder_order b < folder_order a
                     \<or> (folder_order a = folder_order b \<and> folder_name a \<le> folder_name b))
        (getUserFolders d U)
   \<and> (\<forall>f. appCount (withAppCount d f)
              = length (filter (\<lambda>r. af_folderId r = folder_id f) (appFolders d))
          \<and> folder.truncate (withAppCount d f) = f)"
proof -
  let ?key = "\<lambda>f :: folderWithAppCount. (- folder_order f, folder_name f)"
  have "sorted (map ?key (getUserFolders d U))"
    unfolding getUserFolders_def by (rule sorted_sort_key)
  hence "sorted_wrt (\<lambda>a b. ?key a \<le> ?key b) (getUserFolders d U)"
    by (simp add: sorted_map)
  moreover have "?key a \<le> ?key b \<longleftrightarrow>
      (folder_order b < folder_order a
        \<or> (folder_order a = folder_order b \<and> folder_name a \<le> folder_name b))"
    for a b :: folderWithAppCount
    by (auto simp: less_eq_prod_def)
  ultimately have s: "sorted_wrt (\<lambda>a b. folder_order b < folder_order a
                     \<or> (folder_order a = folder_order b \<and> folder_name a \<le> folder_name b))
        (getUserFolders d U)"
    by simp
  have m: "mset (getUserFolders d U)
     = mset (map (withAppCount d) (filter (\<lambda>f. folder_userId f = U) (folders d)))"
    unfolding getUserFolders_def by (rule mset_sort)
  from s m withAppCount_fields show ?thesis by blast
qed

theorem getUserFolders_sorted_witness:
  "map folder_name (getUserFolders exampleDb ''u1'') = [''Personal'', ''Work'']
   \<and> map folder_order (getUserFolders exampleDb ''u1'') = [1, 0]
   \<and> map appCount (getUserFolders exampleDb ''u1'') = [0, 1]
   \<and> sorted_wrt (\<lambda>a b. folder_order b < folder_order a
                     \<or> (folder_order a = folder_order b \<and> folder_name a \<le> folder_name b))
        (getUserFolders exampleDb ''u1'')"
proof -
  have "getUserFolders exampleDb ''u1''
      = [withAppCount exampleDb (mkFolder ''f2'' ''u1'' ''Personal'' 1),
         withAppCount exampleDb (mkFolder ''f1'' ''u1'' ''Work'' 0)]"
    by (simp add: getUserFolders_def exampleDb_def mkFolder_def withAppCount_def
          folder.extend_def less_eq_prod_def)
  hence "map folder_name (getUserFolders exampleDb ''u1'') = [''Personal'', ''Work'']
       \<and> map folder_order (getUserFolders exampleDb ''u1'') = [1, 0]
       \<and> map appCount (getUserFolders exampleDb ''u1'') = [0, 1]"
    by (simp add: exampleDb_def mkFolder_def withAppCount_def folder.extend_def)
  with getUserFolders_sorted [of exampleDb "''u1''"] show ?thesis by blast
qed

subsection \<open>App counts and apps in a folder\<close>









section \<open>Properties of the name validation\<close>

lemma trim_Nil_iff: "trim n = [] \<longleftrightarrow> (\<forall>c \<in> set n. isWhiteSpace c)"
proof (cases "dropWhile isWhiteSpace n")
  case Nil
  have "trim n = []"
    unfolding trim_def Nil by simp
  moreover have "\<forall>c \<in> set n. isWhiteSpace c"
    using Nil by simp
  ultimately show ?thesis by simp
next
  case (Cons a list)
  hence na: "\<not> isWhiteSpace a"
    using hd_dropWhile [of isWhiteSpace n] by simp
  have "a \<in> set n"
    using Cons by (metis list.set_intros(1) set_dropWhileD)
  with na have "\<not> (\<forall>c \<in> set n. isWhiteSpace c)"
    by blast
  moreover have "trim n \<noteq> []"
    using Cons na by (auto simp: trim_def)
  ultimately show ?thesis by simp
qed

lemma create_rejects_long:
  assumes "50 < length n"
  shows "\<exists>msg. FolderController_createFolder d U (body\<lparr>req_name := Some n\<rparr>) i t
           = (ErrorResponse msg 400, d)"
  using assms by (auto simp: FolderController_createFolder_def)

lemma handleSave_rejects_long:
  assumes "50 < length n"
  shows "\<exists>msg. handleSave (form\<lparr>form_name := n\<rparr>) = Inl msg"
  using assms by (auto simp: handleSave_def)

lemma create_rejects_blank:
  assumes "req_name body = None \<or> (\<exists>m. req_name body = Some m \<and> trim m = [])"
  shows "FolderController_createFolder d U body i t
           = (ErrorResponse ''Folder name is required'' 400, d)"
  using assms by (auto simp: FolderController_createFolder_def)

lemma getFolderById_created:
  assumes "i \<notin> set (map folder_id (folders d))" "folder_id f = i" "folder_userId f = U"
  shows "getFolderById (d\<lparr>folders := folders d @ [f]\<rparr>) i U
           = Some (withAppCount (d\<lparr>folders := folders d @ [f]\<rparr>) f)"
proof -
  have "filter (\<lambda>g. folder_id g = i \<and> folder_userId g = U) (folders d) = []"
    using assms(1) by (auto simp: filter_empty_conv)
  thus ?thesis using assms(2,3) by (simp add: getFolderById_def)
qed

lemma create_accepts:
  assumes "length n \<le> 50" "trim n \<noteq> []" "i \<notin> set (map folder_id (folders d))"
  shows "\<exists>fw d'. FolderController_createFolder d U (body\<lparr>req_name := Some n\<rparr>) i t
            = (SuccessResponse (Some fw), d')
          \<and> folder_name fw = trim n \<and> folder_userId fw = U \<and> folder_id fw = i"
proof -
  from assms(2) have ne: "n \<noteq> []" by (auto simp: trim_def)
  let ?data = "\<lparr>name = trim n, description = map_option trim (req_description body),
                 color = req_color body, icon = req_icon body\<rparr>"
  let ?f = "\<lparr>folder_id = i, folder_userId = U, folder_name = name ?data,
               folder_description = description ?data, folder_color = color ?data,
               folder_icon = icon ?data, folder_order = jsAdd (maxOrder d U) 1,
               folder_createdAt = t, folder_updatedAt = t\<rparr>"
  let ?d' = "d\<lparr>folders := folders d @ [?f]\<rparr>"
  have c: "createFolder d U ?data i t = (Inr (Some ?f), ?d')"
    by (simp add: createFolder_fresh [OF assms(3)] Let_def)
  have g: "getFolderById ?d' i U = Some (withAppCount ?d' ?f)"
    by (rule getFolderById_created [OF assms(3)]) simp_all
  have "FolderController_createFolder d U (body\<lparr>req_name := Some n\<rparr>) i t
      = (SuccessResponse (Some (withAppCount ?d' ?f)), ?d')"
    using assms(1,2) ne c g by (simp add: FolderController_createFolder_def)
  thus ?thesis
    by (intro exI [of _ "withAppCount ?d' ?f"] exI [of _ ?d'])
       (simp add: withAppCount_def folder.extend_def)
qed

lemma handleSave_accepts:
  assumes "length n \<le> 50" "trim n \<noteq> []"
  shows "\<exists>data. handleSave (form\<lparr>form_name := n\<rparr>) = Inr data \<and> form_name data = trim n"
  using assms by (simp add: handleSave_def)

lemma update_rejects_empty:
  assumes "ureq_name ubody = Some m" "trim m = []" "fid \<noteq> []"
  shows "FolderController_updateFolder d U (Some fid) ubody t
           = (ErrorResponse ''Folder name cannot be empty'' 400, d)"
  using assms by (simp add: FolderController_updateFolder_def)

text \<open>
  Claim C6. A name longer than 50 characters (so one of 51) is rejected by the controller
  with status 400 and by the dialog with an error message, nothing being stored or sent.
  A name of at most 50 characters (so one of exactly 50) that is not all white space is
  accepted by both: the controller, given an unused id, answers with the created folder,
  named by the trimmed name, and the dialog hands the trimmed name to \<^verbatim>\<open>onSave\<close>. A missing
  or all-white-space name is rejected on create with 400 and by the dialog; an empty or
  all-white-space name is rejected on update with 400.
\<close>

theorem folder_name_validation:
  "(50 < length n \<longrightarrow>
      (\<exists>msg. FolderController_createFolder d U (body\<lparr>req_name := Some n\<rparr>) i t
                = (ErrorResponse msg 400, d))
      \<and> (\<exists>msg. handleSave (form\<lparr>form_name := n\<rparr>) = Inl msg))
   \<and> (length n \<le> 50 \<and> (\<exists>c \<in> set n. \<not> isWhiteSpace c)
        \<and> i \<notin> set (map folder_id (folders d)) \<longrightarrow>
      (\<exists>fw d'. FolderController_createFolder d U (body\<lparr>req_name := Some n\<rparr>) i t
                = (SuccessResponse (Some fw), d') \<and> folder_name fw = trim n)
      \<and> (\<exists>data. handleSave (form\<lparr>form_name := n\<rparr>) = Inr data \<and> form_name data = trim n))
   \<and> (req_name body = None
        \<or> (\<exists>w. req_name body = Some w \<and> (\<forall>c \<in> set w. isWhiteSpace c)) \<longrightarrow>
      FolderController_createFolder d U body i t
        = (ErrorResponse ''Folder name is required'' 400, d))
   \<and> ((\<forall>c \<in> set (form_name form). isWhiteSpace c) \<longrightarrow>
      handleSave form = Inl ''Folder name is required'')
   \<and> (ureq_name ubody = Some m \<and> (\<forall>c \<in> set m. isWhiteSpace c) \<and> fid \<noteq> [] \<longrightarrow>
      FolderController_updateFolder d U (Some fid) ubody t
        = (ErrorResponse ''Folder name cannot be empty'' 400, d))"
proof (intro conjI impI)
  assume "50 < length n"
  thus "\<exists>msg. FolderController_createFolder d U (body\<lparr>req_name := Some n\<rparr>) i t
                = (ErrorResponse msg 400, d)"
    by (rule create_rejects_long)
next
  assume "50 < length n"
  thus "\<exists>msg. handleSave (form\<lparr>form_name := n\<rparr>) = Inl msg"
    by (rule handleSave_rejects_long)
next
  assume a: "length n \<le> 50 \<and> (\<exists>c \<in> set n. \<not> isWhiteSpace c)
        \<and> i \<notin> set (map folder_id (folders d))"
  hence "trim n \<noteq> []" by (simp add: trim_Nil_iff)
  with create_accepts [of n i d U body t] a
  show "\<exists>fw d'. FolderController_createFolder d U (body\<lparr>req_name := Some n\<rparr>) i t
                = (SuccessResponse (Some fw), d') \<and> folder_name fw = trim n"
    by blast
next
  assume a: "length n \<le> 50 \<and> (\<exists>c \<in> set n. \<not> isWhiteSpace c)
        \<and> i \<notin> set (map folder_id (folders d))"
  hence "trim n \<noteq> []" by (simp add: trim_Nil_iff)
  with a show "\<exists>data. handleSave (form\<lparr>form_name := n\<rparr>) = Inr data \<and> form_name data = trim n"
    using handleSave_accepts by blast
next
  assume "req_name body = None
        \<or> (\<exists>w. req_name body = Some w \<and> (\<forall>c \<in> set w. isWhiteSpace c))"
  hence "req_name body = None \<or> (\<exists>w. req_name body = Some w \<and> trim w = [])"
    by (simp add: trim_Nil_iff)
  thus "FolderController_createFolder d U body i t
        = (ErrorResponse ''Folder name is required'' 400, d)"
    by (rule create_rejects_blank)
next
  assume "\<forall>c \<in> set (form_name form). isWhiteSpace c"
  hence "trim (form_name form) = []" by (simp add: trim_Nil_iff)
  thus "handleSave form = Inl ''Folder name is required''"
    by (simp add: handleSave_def)
next
  assume a: "ureq_name ubody = Some m \<and> (\<forall>c \<in> set m. isWhiteSpace c) \<and> fid \<noteq> []"
  hence "trim m = []" by (simp add: trim_Nil_iff)
  with a show "FolderController_updateFolder d U (Some fid) ubody t
        = (ErrorResponse ''Folder name cannot be empty'' 400, d)"
    using update_rejects_empty by blast
qed

lemma isWhiteSpace_a: "\<not> isWhiteSpace CHR ''a''"
  by (simp add: isWhiteSpace_def)

lemma isWhiteSpace_space: "isWhiteSpace CHR '' ''"
  by (simp add: isWhiteSpace_def)

theorem folder_name_validation_witness:
  "(\<exists>msg. FolderController_createFolder exampleDb ''u1'' (exampleBody (replicate 51 CHR ''a''))
             ''n1'' 4000 = (ErrorResponse msg 400, exampleDb))
   \<and> (\<exists>msg. handleSave (exampleForm (replicate 51 CHR ''a'')) = Inl msg)
   \<and> (\<exists>fw d'. FolderController_createFolder exampleDb ''u1'' (exampleBody (replicate 50 CHR ''a''))
               ''n1'' 4000 = (SuccessResponse (Some fw), d')
            \<and> folder_name fw = replicate 50 CHR ''a'')
   \<and> (\<exists>data. handleSave (exampleForm (replicate 50 CHR ''a'')) = Inr data
            \<and> form_name data = replicate 50 CHR ''a'')
   \<and> FolderController_createFolder exampleDb ''u1'' (exampleBody ''   '') ''n1'' 4000
        = (ErrorResponse ''Folder name is required'' 400, exampleDb)
   \<and> handleSave (exampleForm ''   '') = Inl ''Folder name is required''
   \<and> FolderController_updateFolder exampleDb ''u1'' (Some ''f1'') (exampleUpdateBody []) 4000
        = (ErrorResponse ''Folder name cannot be empty'' 400, exampleDb)"
proof -
  have fresh: "''n1'' \<notin> set (map folder_id (folders exampleDb))"
    by (simp add: exampleDb_def mkFolder_def)
  have tr: "trim (replicate 50 CHR ''a'') = replicate 50 CHR ''a''"
    by (simp add: trim_def isWhiteSpace_a)
  have b: "(exampleBody x)\<lparr>req_name := Some n\<rparr> = exampleBody n" for x n
    by (simp add: exampleBody_def)
  have f: "(exampleForm x)\<lparr>form_name := n\<rparr> = exampleForm n" for x n
    by (simp add: exampleForm_def)
  note long = folder_name_validation [where n = "replicate 51 CHR ''a''" and d = exampleDb
      and U = "''u1''" and body = "exampleBody []" and form = "exampleForm []"
      and i = "''n1''" and t = 4000, unfolded b f]
  note ok = folder_name_validation [where n = "replicate 50 CHR ''a''" and d = exampleDb
      and U = "''u1''" and body = "exampleBody []" and form = "exampleForm []"
      and i = "''n1''" and t = 4000, unfolded b f tr]
  note blank = folder_name_validation [where d = exampleDb and U = "''u1''"
      and body = "exampleBody ''   ''" and form = "exampleForm ''   ''"
      and ubody = "exampleUpdateBody []" and m = "[]" and fid = "''f1''"
      and i = "''n1''" and t = 4000]
  have 1: "\<exists>msg. FolderController_createFolder exampleDb ''u1'' (exampleBody (replicate 51 CHR ''a''))
             ''n1'' 4000 = (ErrorResponse msg 400, exampleDb)"
    and 2: "\<exists>msg. handleSave (exampleForm (replicate 51 CHR ''a'')) = Inl msg"
    using long by simp_all
  have 3: "\<exists>fw d'. FolderController_createFolder exampleDb ''u1'' (exampleBody (replicate 50 CHR ''a''))
               ''n1'' 4000 = (SuccessResponse (Some fw), d')
            \<and> folder_name fw = replicate 50 CHR ''a''"
    and 4: "\<exists>data. handleSave (exampleForm (replicate 50 CHR ''a'')) = Inr data
            \<and> form_name data = replicate 50 CHR ''a''"
    using ok fresh isWhiteSpace_a by simp_all
  have 5: "FolderController_createFolder exampleDb ''u1'' (exampleBody ''   '') ''n1'' 4000
        = (ErrorResponse ''Folder name is required'' 400, exampleDb)"
    and 6: "handleSave (exampleForm ''   '') = Inl ''Folder name is required''"
    and 7: "FolderController_updateFolder exampleDb ''u1'' (Some ''f1'') (exampleUpdateBody []) 4000
        = (ErrorResponse ''Folder name cannot be empty'' 400, exampleDb)"
    using blank isWhiteSpace_space
    by (simp_all add: exampleBody_def exampleForm_def exampleUpdateBody_def)
  from 1 2 3 4 5 6 7 show ?thesis by blast
qed

section \<open>Properties of the status tracker\<close>

lemma activityFor_phase_generating:
  "msg_type m = ''phase_generating'' \<Longrightarrow>
     activityFor m = Some (''phase_generating'', msg_message m, Active)"
  by (simp add: activityFor_def)

lemma track_phase_generating:
  assumes "msg_type m = ''phase_generating''"
  shows "trackWebSocketMessage s m r =
     s\<lparr>activities := drop (length (activities s) + 1 - MAX_ACTIVITIES)
                        (activities s @ [phaseGeneratingActivity (m, r)]),
       lastMessageTimestamp := at_last r\<rparr>"
  by (simp add: trackWebSocketMessage_def activityFor_phase_generating [OF assms]
        addActivity_def phaseGeneratingActivity_def Let_def)

lemma drop_window:
  assumes "k = length X - 50" 
  shows "drop (length (drop k X @ M) - 50) (drop k X @ M) = drop (length (X @ M) - 50) (X @ M)"
proof (cases "length X \<le> 50")
  case True
  with assms show ?thesis by simp
next
  case False
  hence k: "length X = k + 50" using assms by simp
  have "drop (length (X @ M) - 50) (X @ M) = drop (k + length M) (X @ M)"
    using k by simp
  also have "\<dots> = drop (length M) (drop k (X @ M))"
    by (simp only: drop_drop add.commute [of k])
  also have "\<dots> = drop (length M) (drop k X @ M)"
  proof -
    have "k - length X = 0" using k by simp
    thus ?thesis by (simp only: drop_append drop_0)
  qed
  finally have r: "drop (length (X @ M) - 50) (X @ M) = drop (length M) (drop k X @ M)" .
  have "length (drop k X @ M) - 50 = length M"
    using k by simp
  thus ?thesis unfolding r by (simp only:)
qed

lemma trackAll_Cons:
  "trackAll s ((m, r) # ms) = trackAll (trackWebSocketMessage s m r) ms"
  by (simp add: trackAll_def)

lemma trackAll_phase_generating:
  assumes "\<forall>mr \<in> set ms. msg_type (fst mr) = ''phase_generating''"
    and "length (activities s) \<le> 50"
  shows "activities (trackAll s ms)
           = drop (length (activities s @ map phaseGeneratingActivity ms) - 50)
               (activities s @ map phaseGeneratingActivity ms)
       \<and> lastMessageTimestamp (trackAll s ms)
           = (if ms = [] then lastMessageTimestamp s else at_last (snd (last ms)))"
  using assms
proof (induction ms arbitrary: s)
  case Nil
  then show ?case by (simp add: trackAll_def)
next
  case (Cons mr ms)
  obtain m r where mr: "mr = (m, r)" by (cases mr)
  let ?X = "activities s @ [phaseGeneratingActivity (m, r)]"
  let ?k = "length ?X - 50"
  let ?s' = "trackWebSocketMessage s m r"
  have pg: "msg_type m = ''phase_generating''"
    using Cons.prems(1) mr by simp
  have act: "activities ?s' = drop ?k ?X" and lm: "lastMessageTimestamp ?s' = at_last r"
    by (simp_all add: track_phase_generating [OF pg] MAX_ACTIVITIES_def)
  have len: "length (activities ?s') \<le> 50"
    unfolding act using Cons.prems(2) by simp
  have rest: "\<forall>mr \<in> set ms. msg_type (fst mr) = ''phase_generating''"
    using Cons.prems(1) by simp
  note IH = Cons.IH [OF rest len]
  have "activities (trackAll s (mr # ms))
      = drop (length (drop ?k ?X @ map phaseGeneratingActivity ms) - 50)
          (drop ?k ?X @ map phaseGeneratingActivity ms)"
    using IH unfolding mr trackAll_Cons act by simp
  also have "\<dots> = drop (length (?X @ map phaseGeneratingActivity ms) - 50)
          (?X @ map phaseGeneratingActivity ms)"
    by (rule drop_window) simp
  finally have a: "activities (trackAll s (mr # ms))
      = drop (length (activities s @ map phaseGeneratingActivity (mr # ms)) - 50)
          (activities s @ map phaseGeneratingActivity (mr # ms))"
    by (simp add: mr)
  have b: "lastMessageTimestamp (trackAll s (mr # ms)) = at_last (snd (last (mr # ms)))"
    using IH unfolding mr trackAll_Cons lm by simp
  from a b show ?case by simp
qed

lemma addActivity_length:
  "length (activities s) \<le> MAX_ACTIVITIES \<Longrightarrow>
     length (activities (addActivity s ty msg st r)) \<le> MAX_ACTIVITIES"
  by (simp add: addActivity_def Let_def MAX_ACTIVITIES_def)

lemma track_length:
  assumes "length (activities s) \<le> MAX_ACTIVITIES"
  shows "length (activities (trackWebSocketMessage s m r)) \<le> MAX_ACTIVITIES"
proof (cases "activityFor m")
  case None
  then show ?thesis using assms by (simp add: trackWebSocketMessage_def)
next
  case (Some a)
  obtain ty msg st where "a = (ty, msg, st)" by (cases a)
  with Some show ?thesis
    using assms addActivity_length [of "s\<lparr>lastMessageTimestamp := at_track r\<rparr>" ty msg st r]
    by (simp add: trackWebSocketMessage_def)
qed

lemma trackAll_length:
  "length (activities s) \<le> MAX_ACTIVITIES \<Longrightarrow>
     length (activities (trackAll s ms)) \<le> MAX_ACTIVITIES"
proof (induction ms arbitrary: s)
  case Nil
  then show ?case by (simp add: trackAll_def)
next
  case (Cons mr ms)
  obtain m r where mr: "mr = (m, r)" by (cases mr)
  show ?case
    unfolding mr trackAll_Cons
    by (rule Cons.IH) (rule track_length [OF Cons.prems])
qed

text \<open>
  Claim C9. After 60 \<^verbatim>\<open>phase_generating\<close> messages, fed to a fresh tracker one after the
  other, the activity log has exactly 50 entries: those of the last 50 messages, in
  arrival order, the first 10 being gone; the last-message time is the last clock
  reading taken for the 60th message. And the log never has more than
  \<open>MAX_ACTIVITIES\<close> entries: not after any run of messages, and not after one more message
  from any state within the bound.
\<close>

theorem tracker_keeps_last_50:
  assumes "length ms = 60"
    and "\<forall>mr \<in> set ms. msg_type (fst mr) = ''phase_generating''"
  shows "length (activities (trackAll (initialTracker t0) ms)) = 50
       \<and> activities (trackAll (initialTracker t0) ms)
           = map phaseGeneratingActivity (drop 10 ms)
       \<and> lastMessageTimestamp (trackAll (initialTracker t0) ms) = at_last (snd (ms ! 59))
       \<and> length (activities (trackAll (initialTracker t0) anyMessages)) \<le> MAX_ACTIVITIES
       \<and> (length (activities s) \<le> MAX_ACTIVITIES \<longrightarrow>
            length (activities (trackWebSocketMessage s m r)) \<le> MAX_ACTIVITIES)"
proof -
  have i0: "length (activities (initialTracker t0)) \<le> 50"
    by (simp add: initialTracker_def)
  note main = trackAll_phase_generating [OF assms(2) i0]
  have ne: "ms \<noteq> []" using assms(1) by auto
  have a: "activities (trackAll (initialTracker t0) ms) = map phaseGeneratingActivity (drop 10 ms)"
    using main assms(1) by (simp add: initialTracker_def drop_map)
  have l: "last ms = ms ! 59"
    using assms(1) ne by (simp add: last_conv_nth)
  have b: "lastMessageTimestamp (trackAll (initialTracker t0) ms) = at_last (snd (ms ! 59))"
    using main ne l by simp
  have c: "length (activities (trackAll (initialTracker t0) anyMessages)) \<le> MAX_ACTIVITIES"
    by (rule trackAll_length) (simp add: initialTracker_def)
  have d: "length (activities s) \<le> MAX_ACTIVITIES \<longrightarrow>
            length (activities (trackWebSocketMessage s m r)) \<le> MAX_ACTIVITIES"
    using track_length by blast
  have e: "length (activities (trackAll (initialTracker t0) ms)) = 50"
    unfolding a using assms(1) by simp
  from a b c d e show ?thesis by blast
qed

theorem tracker_keeps_last_50_witness:
  "length exampleMessages = 60
   \<and> list_all (\<lambda>mr. msg_type (fst mr) = ''phase_generating'') exampleMessages
   \<and> length (activities (trackAll (initialTracker 0) exampleMessages)) = 50
   \<and> map activity_timestamp (activities (trackAll (initialTracker 0) exampleMessages))
       = map (\<lambda>k. 1002 + 10 * int k) [10..<60]
   \<and> lastMessageTimestamp (trackAll (initialTracker 0) exampleMessages) = 1593"
proof -
  have h1: "length exampleMessages = 60"
    by (simp add: exampleMessages_def)
  have h2: "\<forall>mr \<in> set exampleMessages. msg_type (fst mr) = ''phase_generating''"
    by (simp add: exampleMessages_def)
  have h2': "list_all (\<lambda>mr. msg_type (fst mr) = ''phase_generating'') exampleMessages"
    using h2 by (simp add: list_all_iff)
  note t = tracker_keeps_last_50 [OF h1 h2, of 0]
  have d: "drop 10 exampleMessages = map (\<lambda>k. (\<lparr>msg_type = ''phase_generating'', msg_message = ''Generating phase'',
                  msg_totalFiles = 0, msg_filePath = [], msg_file_filePath = [],
                  msg_error = [], msg_count = 0, msg_tool = None\<rparr>,
                 \<lparr>at_track = 1000 + 10 * int k, at_id = 1001 + 10 * int k,
                  random_suffix = ''k3x9q2a'', at_stamp = 1002 + 10 * int k,
                  at_last = 1003 + 10 * int k\<rparr>)) [10..<60]"
    by (simp add: exampleMessages_def drop_map)
  have a: "map activity_timestamp (activities (trackAll (initialTracker 0) exampleMessages))
       = map (\<lambda>k. 1002 + 10 * int k) [10..<60]"
    using t unfolding d by (simp add: phaseGeneratingActivity_def comp_def)
  have b: "lastMessageTimestamp (trackAll (initialTracker 0) exampleMessages) = 1593"
    using t by (simp add: exampleMessages_def)
  from h1 h2' t a b show ?thesis by blast
qed

end
